theory Spec2Isabelle
  imports Complex_Main
begin

section \<open>The metrics aggregator of jwt-pizza-service (src/metrics.js)\<close>

text \<open>
  The class \<open>Metrics\<close> of \<open>src/metrics.js\<close> is embedded as functions on an explicit
  state record. Clock readings (\<open>Date.now()\<close>), the host facts read from \<open>os\<close>, the
  configuration \<open>config.metrics\<close> and the answer of \<open>fetch\<close> are parameters of the
  operations that consume them.

  Numbers: counters are natural numbers, clock readings are integers (milliseconds),
  latencies and revenue are reals. The rounding of IEEE doubles is not part of the model
  (a counter only stops counting at \<open>2^53\<close>). The special values of doubles are modelled
  where the code can produce them, that is in the two divisions of the system sampler.
\<close>

subsection \<open>Numbers and values\<close>

datatype jsnum = Fin real | PosInf | NegInf | NaN

text \<open>\<open>a / b\<close> for two finite operands, the divisor never being \<open>-0\<close>.\<close>

definition js_div :: "real \<Rightarrow> real \<Rightarrow> jsnum" where
  "js_div a b =
     (if b \<noteq> 0 then Fin (a / b)
      else if a = 0 then NaN
      else if 0 < a then PosInf else NegInf)"

text \<open>\<open>x * c\<close> for a finite constant \<open>c\<close>.\<close>

fun js_mul :: "jsnum \<Rightarrow> real \<Rightarrow> jsnum" where
  "js_mul (Fin r) c = Fin (r * c)"
| "js_mul PosInf c = (if 0 < c then PosInf else if c < 0 then NegInf else NaN)"
| "js_mul NegInf c = (if 0 < c then NegInf else if c < 0 then PosInf else NaN)"
| "js_mul NaN c = NaN"

text \<open>\<open>Math.min(x, c)\<close> for a finite constant \<open>c\<close>: \<open>NaN\<close> if \<open>x\<close> is.\<close>

fun Math_min :: "jsnum \<Rightarrow> real \<Rightarrow> jsnum" where
  "Math_min (Fin r) c = Fin (min r c)"
| "Math_min PosInf c = Fin c"
| "Math_min NegInf c = NegInf"
| "Math_min NaN c = NaN"

text \<open>The comparison \<open>x > c\<close> of doubles: false when \<open>x\<close> is \<open>NaN\<close>.\<close>

fun js_gt :: "jsnum \<Rightarrow> real \<Rightarrow> bool" where
  "js_gt (Fin r) c = (c < r)"
| "js_gt PosInf c = True"
| "js_gt NegInf c = False"
| "js_gt NaN c = False"

text \<open>The comparison \<open>x <= c\<close> of doubles: false when \<open>x\<close> is \<open>NaN\<close>.\<close>

fun js_le :: "jsnum \<Rightarrow> real \<Rightarrow> bool" where
  "js_le (Fin r) c = (r \<le> c)"
| "js_le PosInf c = False"
| "js_le NegInf c = True"
| "js_le NaN c = False"

text \<open>\<open>Math.round(x)\<close>: the nearest integer, a tie going up.\<close>

definition Math_round :: "real \<Rightarrow> int" where
  "Math_round x = \<lfloor>x + 1 / 2\<rfloor>"

text \<open>
  \<open>parseFloat(x.toFixed(2))\<close>: two decimals, a tie going away from zero; from
  \<open>10^21\<close> on \<open>toFixed\<close> prints the number itself.
\<close>

fun toFixed2 :: "jsnum \<Rightarrow> jsnum" where
  "toFixed2 (Fin r) =
     (if 10 ^ 21 \<le> \<bar>r\<bar> then Fin r
      else Fin (sgn r * real_of_int \<lfloor>\<bar>r\<bar> * 100 + 1 / 2\<rfloor> / 100))"
| "toFixed2 PosInf = PosInf"
| "toFixed2 NegInf = NegInf"
| "toFixed2 NaN = NaN"

text \<open>The values a field of the snapshot object holds.\<close>

datatype jsval = JNum jsnum | JStr string

subsection \<open>The state of the aggregator\<close>

text \<open>
  \<open>httpRequestCounts\<close> is an object with the five keys of its literal, all numbers, and
  whatever keys \<open>requestTracker\<close> adds under other method names. A key added under a name
  that \<open>Object.prototype\<close> defines holds a string (see \<open>bump\<close>), whose content is not
  tracked.
\<close>

datatype bucket = Count nat | Text

record http_counts =
  total_count :: nat
  GET :: nat
  POST :: nat
  PUT :: nat
  DELETE :: nat
  extra :: "string \<rightharpoonup> bucket"

record auth_counts =
  successful :: nat
  failed :: nat

record pizza_counts =
  sold :: nat
  failures :: nat
  revenue :: real

record latency_windows =
  serviceLatencies :: "real list"
  pizzaLatencies :: "real list"

type_synonym userId = nat

text \<open>
  The snapshot object \<open>metrics\<close> of \<open>sendMetrics\<close>: its entries in the order of the object
  literal, which is the order \<open>Object.entries\<close> lists them in.
\<close>

type_synonym snapshot = "(string \<times> jsval) list"

datatype logline =
    UserRemoved userId
  | UserExpired userId int
  | MetricsCollected snapshot
  | SendFailed nat string string
  | SendSucceeded
  | SendError string

text \<open>
  \<open>activeUsers\<close> is a \<open>Map\<close>: its entries in insertion order, \<open>set\<close> replacing the value of
  a key in place and appending a new key. \<open>console\<close> collects what the object prints.
\<close>

record metrics =
  httpRequestCounts :: http_counts
  authAttempts :: auth_counts
  activeUsers :: "(userId \<times> int) list"
  pizzaMetrics :: pizza_counts
  latencyMetrics :: latency_windows
  console :: "logline list"

definition zero_http :: http_counts where
  "zero_http = \<lparr>total_count = 0, GET = 0, POST = 0, PUT = 0, DELETE = 0, extra = Map.empty\<rparr>"

definition zero_auth :: auth_counts where
  "zero_auth = \<lparr>successful = 0, failed = 0\<rparr>"

definition zero_pizza :: pizza_counts where
  "zero_pizza = \<lparr>sold = 0, failures = 0, revenue = 0\<rparr>"

text \<open>The constructor.\<close>

definition fresh :: metrics where
  "fresh = \<lparr>httpRequestCounts = zero_http, authAttempts = zero_auth, activeUsers = [],
     pizzaMetrics = zero_pizza,
     latencyMetrics = \<lparr>serviceLatencies = [], pizzaLatencies = []\<rparr>,
     console = []\<rparr>"

subsection \<open>The activity map\<close>

fun map_set :: "userId \<Rightarrow> int \<Rightarrow> (userId \<times> int) list \<Rightarrow> (userId \<times> int) list" where
  "map_set k v [] = [(k, v)]"
| "map_set k v ((k', v') # es) = (if k' = k then (k, v) # es else (k', v') # map_set k v es)"

definition map_delete :: "userId \<Rightarrow> (userId \<times> int) list \<Rightarrow> (userId \<times> int) list" where
  "map_delete k es = filter (\<lambda>e. fst e \<noteq> k) es"

text \<open>\<open>if (userId)\<close>: \<open>null\<close>, \<open>undefined\<close> and \<open>0\<close> are falsy.\<close>

fun truthy_id :: "userId option \<Rightarrow> bool" where
  "truthy_id None = False"
| "truthy_id (Some u) = (u \<noteq> 0)"

subsection \<open>Recording\<close>

text \<open>The names \<open>Object.prototype\<close> defines, which every object literal inherits.\<close>

definition objectPrototypeKeys :: "string list" where
  "objectPrototypeKeys =
     [''constructor'', ''__proto__'', ''hasOwnProperty'', ''isPrototypeOf'',
      ''propertyIsEnumerable'', ''toLocaleString'', ''toString'', ''valueOf'',
      ''__defineGetter__'', ''__defineSetter__'', ''__lookupGetter__'', ''__lookupSetter__'']"

text \<open>
  \<open>(v || 0) + 1\<close> for the value \<open>v\<close> read under a key \<open>k\<close> that is none of the literal's:
  a number counts on, \<open>undefined\<close> becomes 1, and an inherited function or a string is
  truthy and is concatenated with \<open>1\<close>.
\<close>

definition or0_plus1 :: "string \<Rightarrow> bucket option \<Rightarrow> bucket" where
  "or0_plus1 k v =
     (case v of
        Some (Count n) \<Rightarrow> Count (n + 1)
      | Some Text \<Rightarrow> Text
      | None \<Rightarrow> if k \<in> set objectPrototypeKeys then Text else Count 1)"

text \<open>
  The statement \<open>counts[k] = (counts[k] || 0) + 1\<close>. The key is computed, so it can name
  any property of the object, \<open>total\<close> included. Assigning a string to \<open>__proto__\<close> does
  nothing.
\<close>

definition bump :: "string \<Rightarrow> http_counts \<Rightarrow> http_counts" where
  "bump k c =
     (if k = ''total'' then c\<lparr>total_count := total_count c + 1\<rparr>
      else if k = ''GET'' then c\<lparr>GET := GET c + 1\<rparr>
      else if k = ''POST'' then c\<lparr>POST := POST c + 1\<rparr>
      else if k = ''PUT'' then c\<lparr>PUT := PUT c + 1\<rparr>
      else if k = ''DELETE'' then c\<lparr>DELETE := DELETE c + 1\<rparr>
      else if k = ''__proto__'' then c
      else c\<lparr>extra := (extra c)(k \<mapsto> or0_plus1 k (extra c k))\<rparr>)"


record request =
  req_method :: string
  req_user_id :: "userId option"

text \<open>
  \<open>requestTracker\<close> up to \<open>next()\<close>; \<open>t\<close> is the clock reading stored for the user. The
  listener it registers on \<open>finish\<close> is \<open>on_finish\<close>.
\<close>

definition requestTracker :: "request \<Rightarrow> int \<Rightarrow> metrics \<Rightarrow> metrics" where
  "requestTracker req t s =
     (let c1 = (httpRequestCounts s)\<lparr>total_count := total_count (httpRequestCounts s) + 1\<rparr>;
          c2 = bump (req_method req) c1;
          s1 = s\<lparr>httpRequestCounts := c2\<rparr>
      in if truthy_id (req_user_id req)
         then s1\<lparr>activeUsers := map_set (the (req_user_id req)) t (activeUsers s1)\<rparr>
         else s1)"

text \<open>\<open>xs.push(v); if (xs.length > 100) xs.shift()\<close>\<close>

definition push_latency :: "real \<Rightarrow> real list \<Rightarrow> real list" where
  "push_latency v xs = (let ys = xs @ [v] in if 100 < length ys then tl ys else ys)"

definition on_finish :: "int \<Rightarrow> int \<Rightarrow> metrics \<Rightarrow> metrics" where
  "on_finish startTime t s =
     (let latency = real_of_int (t - startTime);
          w = latencyMetrics s
      in s\<lparr>latencyMetrics := w\<lparr>serviceLatencies := push_latency latency (serviceLatencies w)\<rparr>\<rparr>)"

definition recordAuthAttempt :: "bool \<Rightarrow> userId option \<Rightarrow> int \<Rightarrow> metrics \<Rightarrow> metrics" where
  "recordAuthAttempt success userId t s =
     (let a = authAttempts s in
      if success then
        (let s1 = s\<lparr>authAttempts := a\<lparr>successful := successful a + 1\<rparr>\<rparr>
         in if truthy_id userId
            then s1\<lparr>activeUsers := map_set (the userId) t (activeUsers s1)\<rparr>
            else s1)
      else s\<lparr>authAttempts := a\<lparr>failed := failed a + 1\<rparr>\<rparr>)"

definition updateUserActivity :: "userId option \<Rightarrow> int \<Rightarrow> metrics \<Rightarrow> metrics" where
  "updateUserActivity userId t s =
     (if truthy_id userId
      then s\<lparr>activeUsers := map_set (the userId) t (activeUsers s)\<rparr>
      else s)"

definition removeActiveUser :: "userId option \<Rightarrow> metrics \<Rightarrow> metrics" where
  "removeActiveUser userId s =
     (if truthy_id userId
      then s\<lparr>activeUsers := map_delete (the userId) (activeUsers s),
             console := console s @ [UserRemoved (the userId)]\<rparr>
      else s)"

definition pizzaPurchase :: "bool \<Rightarrow> real \<Rightarrow> real \<Rightarrow> metrics \<Rightarrow> metrics" where
  "pizzaPurchase success latency revenue' s =
     (let p = pizzaMetrics s;
          s1 = (if success
                then s\<lparr>pizzaMetrics := p\<lparr>sold := sold p + 1, revenue := revenue p + revenue'\<rparr>\<rparr>
                else s\<lparr>pizzaMetrics := p\<lparr>failures := failures p + 1\<rparr>\<rparr>);
          w = latencyMetrics s1
      in s1\<lparr>latencyMetrics := w\<lparr>pizzaLatencies := push_latency latency (pizzaLatencies w)\<rparr>\<rparr>)"

subsection \<open>The system sampler\<close>

text \<open>
  What \<open>os\<close> answers: \<open>loadavg()[0]\<close>, \<open>cpus().length\<close> (0 when the host gives no CPU
  information), \<open>totalmem()\<close> and \<open>freemem()\<close>.
\<close>

record host =
  loadavg1 :: real
  cpus :: nat
  totalmem :: nat
  freemem :: nat

definition getCpuUsagePercentage :: "host \<Rightarrow> jsnum" where
  "getCpuUsagePercentage h =
     (let cpuUsage = js_div (loadavg1 h) (real (cpus h))
      in Math_min (js_mul cpuUsage 100) 100)"

definition getMemoryUsagePercentage :: "host \<Rightarrow> jsnum" where
  "getMemoryUsagePercentage h =
     (let totalMemory = real (totalmem h);
          freeMemory = real (freemem h);
          usedMemory = totalMemory - freeMemory;
          memoryUsage = js_mul (js_div usedMemory totalMemory) 100
      in toFixed2 memoryUsage)"

definition getAverageLatency :: "real list \<Rightarrow> int" where
  "getAverageLatency latencies =
     (if length latencies = 0 then 0
      else Math_round (sum_list latencies / real (length latencies)))"

subsection \<open>The snapshot\<close>

text \<open>\<open>config.metrics\<close>, which is not part of the sources at hand.\<close>

record config =
  source :: string
  url :: string
  apiKey :: string

text \<open>
  The loop of \<open>sendMetrics\<close> over the entries of \<open>activeUsers\<close>. Deleting the entry the
  iteration stands on leaves the entries still to come as they are, so the loop runs
  over the entries the map had at its start. The clock readings stored are those of
  \<open>Date.now()\<close>, valid dates, for which \<open>toISOString\<close> does not raise.
\<close>

fun expire_loop :: "(userId \<times> int) list \<Rightarrow> int \<Rightarrow> metrics \<Rightarrow> metrics" where
  "expire_loop [] fiveMinutesAgo s = s"
| "expire_loop ((userId, lastActivityTime) # es) fiveMinutesAgo s =
     (if lastActivityTime < fiveMinutesAgo
      then expire_loop es fiveMinutesAgo
             (s\<lparr>activeUsers := map_delete userId (activeUsers s),
                console := console s @ [UserExpired userId lastActivityTime]\<rparr>)
      else expire_loop es fiveMinutesAgo s)"

definition num :: "nat \<Rightarrow> jsval" where
  "num n = JNum (Fin (real n))"

text \<open>The object literal \<open>metrics\<close>; \<open>n || 0\<close> is \<open>n\<close> for a number \<open>n\<close>.\<close>

definition build_snapshot :: "config \<Rightarrow> host \<Rightarrow> int \<Rightarrow> metrics \<Rightarrow> snapshot" where
  "build_snapshot cfg h now s =
     [(''source'', JStr (source cfg)),
      (''timestamp'', JNum (Fin (real_of_int now))),
      (''http_requests_total'', num (total_count (httpRequestCounts s))),
      (''http_requests_get'', num (GET (httpRequestCounts s))),
      (''http_requests_post'', num (POST (httpRequestCounts s))),
      (''http_requests_put'', num (PUT (httpRequestCounts s))),
      (''http_requests_delete'', num (DELETE (httpRequestCounts s))),
      (''auth_attempts_successful'', num (successful (authAttempts s))),
      (''auth_attempts_failed'', num (failed (authAttempts s))),
      (''active_users'', num (length (activeUsers s))),
      (''cpu_percent'', JNum (getCpuUsagePercentage h)),
      (''memory_percent'', JNum (getMemoryUsagePercentage h)),
      (''pizzas_sold'', num (sold (pizzaMetrics s))),
      (''pizza_failures'', num (failures (pizzaMetrics s))),
      (''pizza_revenue'', JNum (Fin (revenue (pizzaMetrics s)))),
      (''service_latency_avg'',
         JNum (Fin (real_of_int (getAverageLatency (serviceLatencies (latencyMetrics s)))))),
      (''pizza_latency_avg'',
         JNum (Fin (real_of_int (getAverageLatency (pizzaLatencies (latencyMetrics s))))))]"

subsection \<open>The encoder\<close>

text \<open>
  The payload. Its arrays \<open>resourceMetrics\<close> and \<open>scopeMetrics\<close> have one element each,
  so the record holds the resource's attributes, the scope and the list of metrics; the
  \<open>gauge\<close> of a metric is its list \<open>dataPoints\<close>. \<open>stringValue\<close> is \<open>None\<close> where the
  snapshot has no \<open>source\<close>.
\<close>

record keyValue =
  attr_key :: string
  stringValue :: "jsval option"

record dataPoint =
  attributes :: "keyValue list"
  asDouble :: jsval
  timeUnixNano :: int

record gaugeMetric =
  name :: string
  description :: string
  unit :: string
  gauge :: "dataPoint list"

record otlp =
  resource :: "keyValue list"
  scope_name :: string
  scope_version :: string
  scope_metrics :: "gaugeMetric list"

text \<open>\<open>s.includes(sub)\<close>\<close>

fun str_includes :: "string \<Rightarrow> string \<Rightarrow> bool" where
  "str_includes [] sub = (sub = [])"
| "str_includes (c # cs) sub = (take (length sub) (c # cs) = sub \<or> str_includes cs sub)"

definition getMetricUnit :: "string \<Rightarrow> string" where
  "getMetricUnit metricName =
     (if str_includes metricName ''percent'' then ''%''
      else if str_includes metricName ''latency'' then ''ms''
      else if str_includes metricName ''revenue'' then ''USD''
      else if str_includes metricName ''requests'' \<or> str_includes metricName ''attempts''
              \<or> str_includes metricName ''users'' \<or> str_includes metricName ''pizzas'' then ''1''
      else ''1'')"

fun is_number :: "jsval \<Rightarrow> bool" where
  "is_number (JNum x) = True"
| "is_number (JStr t) = False"

text \<open>
  \<open>buildOtelMetrics\<close>; \<open>clock\<close> is what \<open>Date.now()\<close> answers in its first line. The array
  \<open>dataPoints\<close> the function fills first is not part of what it returns.
\<close>

definition buildOtelMetrics :: "int \<Rightarrow> snapshot \<Rightarrow> otlp" where
  "buildOtelMetrics clock metrics =
     (let timestamp = clock * 1000000;
          src = map_of metrics ''source'';
          metricsList =
            map (\<lambda>(k, v).
                  \<lparr>name = k,
                   description = k @ '' metric from JWT Pizza Service'',
                   unit = getMetricUnit k,
                   gauge = [\<lparr>attributes = [\<lparr>attr_key = ''source'', stringValue = src\<rparr>],
                             asDouble = v, timeUnixNano = timestamp\<rparr>]\<rparr>)
              (filter (\<lambda>(k, v). k \<noteq> ''source'' \<and> k \<noteq> ''timestamp'' \<and> is_number v) metrics)
      in \<lparr>resource = [\<lparr>attr_key = ''service.name'', stringValue = src\<rparr>,
                      \<lparr>attr_key = ''service.version'', stringValue = Some (JStr ''1.0.0'')\<rparr>],
          scope_name = ''jwt-pizza-service-metrics'',
          scope_version = ''1.0.0'',
          scope_metrics = metricsList\<rparr>)"

subsection \<open>The reporting cycle\<close>

text \<open>
  What \<open>await fetch(...)\<close> gives: a response with its status, its status text and what
  \<open>await response.text()\<close> gives, the body or a rejection; or a rejection (a transport
  error, or \<open>node-fetch\<close> failing to load) with its message.
\<close>

datatype body_result = BodyText string | BodyFailed string

datatype fetch_result = Response nat string body_result | Rejected string

definition response_ok :: "nat \<Rightarrow> bool" where
  "response_ok status = (200 \<le> status \<and> status \<le> 299)"

text \<open>
  \<open>sendToGrafana\<close> returns nothing to its caller and raises nothing: both branches of
  the response and the \<open>catch\<close> only print. The model returns the state, with what was
  printed, and the payload built for the request.
\<close>

definition sendToGrafana :: "int \<Rightarrow> fetch_result \<Rightarrow> snapshot \<Rightarrow> metrics \<Rightarrow> metrics \<times> otlp" where
  "sendToGrafana clock res m s =
     (let s1 = s\<lparr>console := console s @ [MetricsCollected m]\<rparr>;
          otlpPayload = buildOtelMetrics clock m;
          line = (case res of
                    Response status statusText body \<Rightarrow>
                      (if \<not> response_ok status
                       then (case body of
                               BodyText errorText \<Rightarrow> SendFailed status statusText errorText
                             | BodyFailed msg \<Rightarrow> SendError msg)
                       else SendSucceeded)
                  | Rejected msg \<Rightarrow> SendError msg)
      in (s1\<lparr>console := console s1 @ [line]\<rparr>, otlpPayload))"

text \<open>\<open>xs.slice(-50)\<close> when \<open>xs.length > 50\<close>\<close>

definition keep_recent :: "real list \<Rightarrow> real list" where
  "keep_recent xs = (if 50 < length xs then drop (length xs - 50) xs else xs)"

definition resetPeriodMetrics :: "metrics \<Rightarrow> metrics" where
  "resetPeriodMetrics s =
     s\<lparr>httpRequestCounts := zero_http,
       authAttempts := zero_auth,
       pizzaMetrics := zero_pizza,
       latencyMetrics :=
         \<lparr>serviceLatencies = keep_recent (serviceLatencies (latencyMetrics s)),
          pizzaLatencies = keep_recent (pizzaLatencies (latencyMetrics s))\<rparr>\<rparr>"

text \<open>
  \<open>sendMetrics\<close>: \<open>now\<close> is the clock reading of its first line, \<open>clock\<close> the one
  \<open>buildOtelMetrics\<close> takes later. Nothing in its \<open>try\<close> block raises, so the \<open>catch\<close>
  is no branch of the model.
\<close>

definition sendMetrics ::
    "config \<Rightarrow> host \<Rightarrow> int \<Rightarrow> int \<Rightarrow> fetch_result \<Rightarrow> metrics \<Rightarrow> metrics \<times> otlp" where
  "sendMetrics cfg h now clock res s =
     (let fiveMinutesAgo = now - 5 * 60 * 1000;
          s1 = expire_loop (activeUsers s) fiveMinutesAgo s;
          m = build_snapshot cfg h now s1;
          (s2, payload) = sendToGrafana clock res m s1
      in (resetPeriodMetrics s2, payload))"

subsection \<open>Runs of the aggregator\<close>

datatype event =
    Request request int
  | Finish int int
  | AuthAttempt bool "userId option" int
  | UpdateUserActivity "userId option" int
  | RemoveActiveUser "userId option"
  | PizzaPurchase bool real real
  | SendMetrics config host int int fetch_result

fun step :: "metrics \<Rightarrow> event \<Rightarrow> metrics" where
  "step s (Request req t) = requestTracker req t s"
| "step s (Finish startTime t) = on_finish startTime t s"
| "step s (AuthAttempt success userId t) = recordAuthAttempt success userId t s"
| "step s (UpdateUserActivity userId t) = updateUserActivity userId t s"
| "step s (RemoveActiveUser userId) = removeActiveUser userId s"
| "step s (PizzaPurchase success latency revenue') = pizzaPurchase success latency revenue' s"
| "step s (SendMetrics cfg h now clock res) = fst (sendMetrics cfg h now clock res s)"

definition run :: "event list \<Rightarrow> metrics" where
  "run evs = foldl step fresh evs"

subsection \<open>The specification's reading of the average\<close>

text \<open>The arithmetic mean of a window, as the specification words it.\<close>

definition mean :: "real list \<Rightarrow> real" where
  "mean xs = sum_list xs / real (length xs)"

subsection \<open>The bound on the windows\<close>

text \<open>Both windows hold at most 100 samples.\<close>

definition windows_bounded :: "metrics \<Rightarrow> bool" where
  "windows_bounded s =
     (length (serviceLatencies (latencyMetrics s)) \<le> 100 \<and>
      length (pizzaLatencies (latencyMetrics s)) \<le> 100)"

subsection \<open>Notions the properties are stated with\<close>

text \<open>No two entries of \<open>activeUsers\<close> have the same key.\<close>

definition keys_distinct :: "metrics \<Rightarrow> bool" where
  "keys_distinct s = distinct (map fst (activeUsers s))"

text \<open>The events that are a reporting cycle.\<close>

fun is_cycle :: "event \<Rightarrow> bool" where
  "is_cycle (SendMetrics cfg h now clock res) = True"
| "is_cycle e = False"





text \<open>The values of the data points of the metric named \<open>k\<close> in a payload.\<close>

definition gauge_values :: "otlp \<Rightarrow> string \<Rightarrow> jsval list option" where
  "gauge_values p k = map_of (map (\<lambda>m. (name m, map asDouble (gauge m))) (scope_metrics p)) k"

text \<open>A payload with the time stamp of every data point set to \<open>t\<close>.\<close>

definition restamp :: "int \<Rightarrow> otlp \<Rightarrow> otlp" where
  "restamp t p =
     p\<lparr>scope_metrics :=
         map (\<lambda>m. m\<lparr>gauge := map (\<lambda>d. d\<lparr>timeUnixNano := t\<rparr>) (gauge m)\<rparr>) (scope_metrics p)\<rparr>"

text \<open>
  The unit of a metric as the specification words the convention: \<open>%\<close> for a name
  containing \<open>percent\<close>, \<open>ms\<close> for \<open>latency\<close>, the currency \<open>USD\<close> for \<open>revenue\<close>, and
  \<open>1\<close> for every other name.
\<close>

definition unit_by_convention :: "string \<Rightarrow> string" where
  "unit_by_convention k =
     (if str_includes k ''percent'' then ''%''
      else if str_includes k ''latency'' then ''ms''
      else if str_includes k ''revenue'' then ''USD''
      else ''1'')"

section \<open>Properties\<close>

subsection \<open>The average of a window\<close>

lemma Math_round_nearest:
  "\<bar>real_of_int (Math_round x) - x\<bar> \<le> \<bar>real_of_int n - x\<bar>"
proof (cases "n = Math_round x")
  case True
  then show ?thesis by simp
next
  case False
  have close: "\<bar>real_of_int (Math_round x) - x\<bar> \<le> 1 / 2"
    unfolding Math_round_def by linarith
  from False have "1 \<le> \<bar>n - Math_round x\<bar>" by linarith
  then have "1 \<le> \<bar>real_of_int n - real_of_int (Math_round x)\<bar>"
    by (metis of_int_1 of_int_abs of_int_diff of_int_le_iff)
  with close show ?thesis by linarith
qed

text \<open>
  C4. \<open>getAverageLatency\<close> of the empty list is 0. Of a list with at least one sample it
  is the mean rounded to the nearest integer: it is \<open>\<lfloor>mean + 1/2\<rfloor>\<close>, at most one half
  away from the mean, and no integer \<open>n\<close> is nearer to the mean. The result is an
  integer in every case.
\<close>

theorem getAverageLatency_rounds_mean:
  "getAverageLatency [] = 0 \<and>
   getAverageLatency (x # xs) = \<lfloor>mean (x # xs) + 1 / 2\<rfloor> \<and>
   \<bar>real_of_int (getAverageLatency (x # xs)) - mean (x # xs)\<bar> \<le> 1 / 2 \<and>
   \<bar>real_of_int (getAverageLatency (x # xs)) - mean (x # xs)\<bar> \<le> \<bar>real_of_int n - mean (x # xs)\<bar>"
proof -
  have empty: "getAverageLatency [] = 0"
    by (simp add: getAverageLatency_def)
  have avg: "getAverageLatency (x # xs) = Math_round (mean (x # xs))"
    by (simp add: getAverageLatency_def mean_def)
  have half: "\<bar>real_of_int (Math_round (mean (x # xs))) - mean (x # xs)\<bar> \<le> 1 / 2"
    unfolding Math_round_def by linarith
  show ?thesis
    unfolding avg
    using empty half Math_round_nearest [of "mean (x # xs)" n]
    by (simp add: Math_round_def)
qed

subsection \<open>The CPU gauge\<close>

lemma Math_min_capped: "\<not> js_gt (Math_min x c) c"
  by (cases x) simp_all

lemma getCpuUsagePercentage_not_greater: "\<not> js_gt (getCpuUsagePercentage h) 100"
  by (simp add: getCpuUsagePercentage_def Math_min_capped)

lemma getCpuUsagePercentage_bounded:
  "cpus h \<noteq> 0 \<or> loadavg1 h \<noteq> 0 \<Longrightarrow> js_le (getCpuUsagePercentage h) 100"
  by (auto simp: getCpuUsagePercentage_def js_div_def)

text \<open>
  C10. On a host that lists no CPU while its load average is 0, \<open>getCpuUsagePercentage\<close>
  divides 0 by 0 and \<open>Math.min\<close> hands the \<open>NaN\<close> on: the value, and with it the field
  \<open>cpu_percent\<close> of the snapshot, is not at most 100. In every other host state it is
  (\<open>getCpuUsagePercentage_bounded\<close>), and it is greater than 100 in none.
\<close>

theorem getCpuUsagePercentage_nan:
  "getCpuUsagePercentage \<lparr>loadavg1 = 0, cpus = 0, totalmem = 8, freemem = 2\<rparr> = NaN \<and>
   \<not> js_le (getCpuUsagePercentage \<lparr>loadavg1 = 0, cpus = 0, totalmem = 8, freemem = 2\<rparr>) 100 \<and>
   map_of (build_snapshot \<lparr>source = ''dev'', url = ''collector'', apiKey = ''key''\<rparr>
             \<lparr>loadavg1 = 0, cpus = 0, totalmem = 8, freemem = 2\<rparr> 30000 fresh) ''cpu_percent'' =
     Some (JNum NaN)"
  by (simp add: getCpuUsagePercentage_def js_div_def build_snapshot_def)

subsection \<open>Windows, the reporting cycle and the reset\<close>

lemma push_latency_eq:
  "push_latency v xs = (if 100 \<le> length xs then tl xs @ [v] else xs @ [v])"
  by (cases xs) (simp_all add: push_latency_def Let_def)

lemma length_push_latency:
  "length (push_latency v xs) = (if 100 \<le> length xs then length xs else length xs + 1)"
  by (auto simp: push_latency_eq)

lemma length_keep_recent: "length (keep_recent xs) = min (length xs) 50"
  by (simp add: keep_recent_def)

lemma keep_recent_eq: "keep_recent xs = drop (length xs - 50) xs"
  by (simp add: keep_recent_def)

lemma latencyMetrics_expire_loop [simp]:
  "latencyMetrics (expire_loop es c s) = latencyMetrics s"
  by (induction es c s rule: expire_loop.induct) simp_all

lemma httpRequestCounts_expire_loop [simp]:
  "httpRequestCounts (expire_loop es c s) = httpRequestCounts s"
  by (induction es c s rule: expire_loop.induct) simp_all

lemma authAttempts_expire_loop [simp]:
  "authAttempts (expire_loop es c s) = authAttempts s"
  by (induction es c s rule: expire_loop.induct) simp_all

lemma pizzaMetrics_expire_loop [simp]:
  "pizzaMetrics (expire_loop es c s) = pizzaMetrics s"
  by (induction es c s rule: expire_loop.induct) simp_all

lemma fst_sendToGrafana:
  "fst (sendToGrafana clock res m s) =
     s\<lparr>console := console s @ [MetricsCollected m,
        (case res of
           Response status statusText body \<Rightarrow>
             (if \<not> response_ok status
              then (case body of
                      BodyText errorText \<Rightarrow> SendFailed status statusText errorText
                    | BodyFailed msg \<Rightarrow> SendError msg)
              else SendSucceeded)
         | Rejected msg \<Rightarrow> SendError msg)]\<rparr>"
  by (simp add: sendToGrafana_def Let_def)

lemma snd_sendToGrafana: "snd (sendToGrafana clock res m s) = buildOtelMetrics clock m"
  by (simp add: sendToGrafana_def Let_def)

lemma fst_sendMetrics:
  "fst (sendMetrics cfg h now clock res s) =
     resetPeriodMetrics
       (fst (sendToGrafana clock res
               (build_snapshot cfg h now (expire_loop (activeUsers s) (now - 300000) s))
               (expire_loop (activeUsers s) (now - 300000) s)))"
  by (simp add: sendMetrics_def Let_def split_beta)

lemma snd_sendMetrics:
  "snd (sendMetrics cfg h now clock res s) =
     buildOtelMetrics clock
       (build_snapshot cfg h now (expire_loop (activeUsers s) (now - 300000) s))"
  by (simp add: sendMetrics_def Let_def split_beta snd_sendToGrafana)

lemma latencyMetrics_sendMetrics:
  "latencyMetrics (fst (sendMetrics cfg h now clock res s)) =
     \<lparr>serviceLatencies = keep_recent (serviceLatencies (latencyMetrics s)),
      pizzaLatencies = keep_recent (pizzaLatencies (latencyMetrics s))\<rparr>"
  by (simp add: fst_sendMetrics fst_sendToGrafana resetPeriodMetrics_def)

lemma windows_bounded_step: "windows_bounded s \<Longrightarrow> windows_bounded (step s e)"
proof (cases e)
  case (SendMetrics cfg h now clock res)
  assume "windows_bounded s"
  then show ?thesis
    by (auto simp: SendMetrics windows_bounded_def latencyMetrics_sendMetrics length_keep_recent)
qed (auto simp: windows_bounded_def requestTracker_def on_finish_def recordAuthAttempt_def
       updateUserActivity_def removeActiveUser_def pizzaPurchase_def Let_def
       length_push_latency)

lemma windows_bounded_foldl: "windows_bounded s \<Longrightarrow> windows_bounded (foldl step s evs)"
  by (induction evs arbitrary: s) (simp_all add: windows_bounded_step)

lemma windows_bounded_run: "windows_bounded (run evs)"
  unfolding run_def by (rule windows_bounded_foldl) (simp add: windows_bounded_def fresh_def)

lemma length_fold_push_latency:
  "length (fold push_latency vs xs) = (if 100 \<le> length xs then length xs else min (length xs + length vs) 100)"
  by (induction vs arbitrary: xs) (auto simp: length_push_latency)

text \<open>
  C3. After any sequence of operations on a fresh aggregator, neither window holds more
  than 100 samples. An append, by the \<open>finish\<close> listener or by \<open>pizzaPurchase\<close>, puts the
  sample at the end and drops the first one when the length has passed 100. Any number
  \<open>n\<close> of appends to an empty window leaves \<open>min n 100\<close> samples, so 150 appends leave 100.
\<close>

theorem windows_never_exceed_100:
  "length (serviceLatencies (latencyMetrics (run evs))) \<le> 100 \<and>
   length (pizzaLatencies (latencyMetrics (run evs))) \<le> 100 \<and>
   serviceLatencies (latencyMetrics (on_finish t0 t1 s)) =
     (if 100 < length (serviceLatencies (latencyMetrics s) @ [real_of_int (t1 - t0)])
      then tl (serviceLatencies (latencyMetrics s) @ [real_of_int (t1 - t0)])
      else serviceLatencies (latencyMetrics s) @ [real_of_int (t1 - t0)]) \<and>
   pizzaLatencies (latencyMetrics (pizzaPurchase success v r s)) =
     (if 100 < length (pizzaLatencies (latencyMetrics s) @ [v])
      then tl (pizzaLatencies (latencyMetrics s) @ [v])
      else pizzaLatencies (latencyMetrics s) @ [v]) \<and>
   length (fold push_latency vs []) = min (length vs) 100"
proof -
  have "windows_bounded (run evs)" by (rule windows_bounded_run)
  then show ?thesis
    by (simp add: windows_bounded_def on_finish_def pizzaPurchase_def push_latency_def Let_def
        length_fold_push_latency)
qed

text \<open>
  C7. \<open>pizzaPurchase\<close> with a true \<open>success\<close> adds 1 to \<open>sold\<close> and the revenue to
  \<open>revenue\<close>, leaving \<open>failures\<close>; with a false one it adds 1 to \<open>failures\<close>, leaving
  \<open>sold\<close> and \<open>revenue\<close>. In both cases the latency is appended to the pizza window,
  the first sample being dropped when the length has passed 100. After
  \<open>pizzaPurchase(true, 120, 9.99)\<close> and \<open>pizzaPurchase(false, 80, 0)\<close> on a fresh
  aggregator \<open>sold\<close> is 1, \<open>failures\<close> is 1, \<open>revenue\<close> is 9.99 and the average of the
  pizza window is 100, and the snapshot shows these four values.
\<close>

theorem pizzaPurchase_counts:
  "pizzaMetrics (pizzaPurchase True latency r s) =
     (pizzaMetrics s)\<lparr>sold := sold (pizzaMetrics s) + 1, revenue := revenue (pizzaMetrics s) + r\<rparr> \<and>
   pizzaMetrics (pizzaPurchase False latency r s) =
     (pizzaMetrics s)\<lparr>failures := failures (pizzaMetrics s) + 1\<rparr> \<and>
   pizzaLatencies (latencyMetrics (pizzaPurchase success latency r s)) =
     (let ys = pizzaLatencies (latencyMetrics s) @ [latency]
      in if 100 < length ys then tl ys else ys) \<and>
   pizzaMetrics (pizzaPurchase False 80 0 (pizzaPurchase True 120 (999 / 100) fresh)) =
     \<lparr>sold = 1, failures = 1, revenue = 999 / 100\<rparr> \<and>
   getAverageLatency
     (pizzaLatencies (latencyMetrics (pizzaPurchase False 80 0 (pizzaPurchase True 120 (999 / 100) fresh)))) = 100 \<and>
   map (map_of (build_snapshot cfg h now
          (pizzaPurchase False 80 0 (pizzaPurchase True 120 (999 / 100) fresh))))
       [''pizzas_sold'', ''pizza_failures'', ''pizza_revenue'', ''pizza_latency_avg''] =
     [Some (JNum (Fin 1)), Some (JNum (Fin 1)), Some (JNum (Fin (999 / 100))), Some (JNum (Fin 100))]"
  by (simp add: pizzaPurchase_def Let_def push_latency_def fresh_def zero_pizza_def
      getAverageLatency_def Math_round_def build_snapshot_def num_def)

text \<open>
  C5. After \<open>resetPeriodMetrics\<close> every counter of the three groups is 0 (and the request
  counters hold no key but the five of the literal), each window is its last
  \<open>min (length) 50\<close> samples, and \<open>activeUsers\<close> is what it was.
\<close>

theorem resetPeriodMetrics_frame:
  "httpRequestCounts (resetPeriodMetrics s) =
     \<lparr>total_count = 0, GET = 0, POST = 0, PUT = 0, DELETE = 0, extra = Map.empty\<rparr> \<and>
   authAttempts (resetPeriodMetrics s) = \<lparr>successful = 0, failed = 0\<rparr> \<and>
   pizzaMetrics (resetPeriodMetrics s) = \<lparr>sold = 0, failures = 0, revenue = 0\<rparr> \<and>
   serviceLatencies (latencyMetrics (resetPeriodMetrics s)) =
     drop (length (serviceLatencies (latencyMetrics s)) - min (length (serviceLatencies (latencyMetrics s))) 50)
       (serviceLatencies (latencyMetrics s)) \<and>
   length (serviceLatencies (latencyMetrics (resetPeriodMetrics s))) =
     min (length (serviceLatencies (latencyMetrics s))) 50 \<and>
   pizzaLatencies (latencyMetrics (resetPeriodMetrics s)) =
     drop (length (pizzaLatencies (latencyMetrics s)) - min (length (pizzaLatencies (latencyMetrics s))) 50)
       (pizzaLatencies (latencyMetrics s)) \<and>
   length (pizzaLatencies (latencyMetrics (resetPeriodMetrics s))) =
     min (length (pizzaLatencies (latencyMetrics s))) 50 \<and>
   activeUsers (resetPeriodMetrics s) = activeUsers s"
  by (simp add: resetPeriodMetrics_def zero_http_def zero_auth_def zero_pizza_def keep_recent_def
      min_def)

subsection \<open>The activity map\<close>

lemma map_fst_map_set:
  "map fst (map_set k v es) = (if k \<in> fst ` set es then map fst es else map fst es @ [k])"
proof (induction es)
  case Nil
  then show ?case by simp
next
  case (Cons e es)
  then show ?case by (cases e) (auto simp: image_iff)
qed

lemma distinct_map_set: "distinct (map fst es) \<Longrightarrow> distinct (map fst (map_set k v es))"
  by (simp add: map_fst_map_set)

lemma distinct_map_delete: "distinct (map fst es) \<Longrightarrow> distinct (map fst (map_delete k es))"
  by (simp add: map_delete_def distinct_map_filter)

lemma activeUsers_expire_loop:
  "activeUsers (expire_loop es c s) =
     filter (\<lambda>e. \<forall>x \<in> set es. snd x < c \<longrightarrow> fst e \<noteq> fst x) (activeUsers s)"
proof (induction es c s rule: expire_loop.induct)
  case (1 c s)
  then show ?case by simp
next
  case (2 userId lastActivityTime es c s)
  then show ?case
    by (auto simp: map_delete_def intro: filter_cong)
qed

lemma expire_own_entries:
  assumes "distinct (map fst es)"
  shows "filter (\<lambda>e. \<forall>x \<in> set es. snd x < c \<longrightarrow> fst e \<noteq> fst x) es = filter (\<lambda>e. \<not> snd e < c) es"
proof (rule filter_cong [OF refl])
  fix e assume e: "e \<in> set es"
  show "(\<forall>x \<in> set es. snd x < c \<longrightarrow> fst e \<noteq> fst x) = (\<not> snd e < c)"
  proof
    assume "\<forall>x \<in> set es. snd x < c \<longrightarrow> fst e \<noteq> fst x"
    with e show "\<not> snd e < c" by blast
  next
    assume keep: "\<not> snd e < c"
    show "\<forall>x \<in> set es. snd x < c \<longrightarrow> fst e \<noteq> fst x"
    proof (intro ballI impI)
      fix x assume x: "x \<in> set es" "snd x < c"
      show "fst e \<noteq> fst x"
      proof
        assume "fst e = fst x"
        with assms e x(1) have "e = x"
          by (metis distinct_map inj_onD)
        with keep x(2) show False by simp
      qed
    qed
  qed
qed

lemma activeUsers_sendToGrafana [simp]:
  "activeUsers (fst (sendToGrafana clock res m s)) = activeUsers s"
  by (simp add: fst_sendToGrafana)

lemma activeUsers_resetPeriodMetrics [simp]:
  "activeUsers (resetPeriodMetrics s) = activeUsers s"
  by (simp add: resetPeriodMetrics_def)

lemma activeUsers_sendMetrics:
  "activeUsers (fst (sendMetrics cfg h now clock res s)) =
     filter (\<lambda>e. \<forall>x \<in> set (activeUsers s). snd x < now - 300000 \<longrightarrow> fst e \<noteq> fst x) (activeUsers s)"
  by (simp add: fst_sendMetrics activeUsers_expire_loop)

lemma keys_distinct_step: "keys_distinct s \<Longrightarrow> keys_distinct (step s e)"
proof (cases e)
  case (SendMetrics cfg h now clock res)
  assume "keys_distinct s"
  then show ?thesis
    by (simp add: SendMetrics keys_distinct_def activeUsers_sendMetrics distinct_map_filter)
qed (auto simp: keys_distinct_def requestTracker_def on_finish_def recordAuthAttempt_def
       updateUserActivity_def removeActiveUser_def pizzaPurchase_def Let_def
       distinct_map_set distinct_map_delete)

lemma keys_distinct_foldl: "keys_distinct s \<Longrightarrow> keys_distinct (foldl step s evs)"
  by (induction evs arbitrary: s) (simp_all add: keys_distinct_step)

lemma keys_distinct_run: "keys_distinct (run evs)"
  unfolding run_def by (rule keys_distinct_foldl) (simp add: keys_distinct_def fresh_def)

lemma keys_map_set: "fst ` set (map_set k v es) = insert k (fst ` set es)"
proof -
  have "set (map fst (map_set k v es)) = insert k (set (map fst es))"
    unfolding map_fst_map_set by auto
  then show ?thesis by simp
qed

lemma keys_map_delete: "fst ` set (map_delete k es) = fst ` set es - {k}"
  by (auto simp: map_delete_def image_iff)

lemma key_present: "(u, t) \<in> set es \<Longrightarrow> u \<in> fst ` set es"
  by (metis fst_conv image_eqI)

lemma keys_step:
  assumes "\<not> is_cycle e" and "(u, t) \<in> set (activeUsers s)"
  shows "u \<in> fst ` set (activeUsers (step s e)) \<or> e = RemoveActiveUser (Some u)"
proof -
  have u: "u \<in> fst ` set (activeUsers s)"
    using assms(2) by (rule key_present)
  show ?thesis
  proof (cases e)
    case (RemoveActiveUser x)
    then show ?thesis
      using u by (cases x) (auto simp: removeActiveUser_def keys_map_delete)
  next
    case (SendMetrics cfg h now clock res)
    with assms(1) show ?thesis by simp
  qed (use u in \<open>simp_all add: requestTracker_def on_finish_def recordAuthAttempt_def
       updateUserActivity_def pizzaPurchase_def Let_def keys_map_set\<close>)
qed

text \<open>
  C6. In every state the aggregator reaches, the reporting cycle leaves in \<open>activeUsers\<close>
  exactly the entries that do not satisfy \<open>now - lastActivity > 5 * 60 * 1000\<close>, in their
  order and with their time stamps: it removes the others and nothing else. An entry
  whose age is one millisecond below the bound stays. No other operation removes an
  entry for its age: every key is still there after it, except the key that
  \<open>removeActiveUser\<close> is called with.
\<close>

theorem expiry_in_cycle_only:
  "activeUsers (fst (sendMetrics cfg h now clock res (run evs))) =
     filter (\<lambda>(u, lastActivity). \<not> (5 * 60 * 1000 < now - lastActivity)) (activeUsers (run evs)) \<and>
   ((u, lastActivity) \<in> set (activeUsers (run evs)) \<and> now - lastActivity = 5 * 60 * 1000 - 1 \<longrightarrow>
      (u, lastActivity) \<in> set (activeUsers (fst (sendMetrics cfg h now clock res (run evs))))) \<and>
   (\<not> is_cycle e \<and> (u, lastActivity) \<in> set (activeUsers s) \<longrightarrow>
      u \<in> fst ` set (activeUsers (step s e)) \<or> e = RemoveActiveUser (Some u))"
proof -
  have d: "distinct (map fst (activeUsers (run evs)))"
    using keys_distinct_run [of evs] by (simp add: keys_distinct_def)
  have eq: "activeUsers (fst (sendMetrics cfg h now clock res (run evs))) =
     filter (\<lambda>(u, lastActivity). \<not> (5 * 60 * 1000 < now - lastActivity)) (activeUsers (run evs))"
    unfolding activeUsers_sendMetrics expire_own_entries [OF d]
    by (rule filter_cong) auto
  show ?thesis
    unfolding eq using keys_step [of e u lastActivity s] by auto
qed

theorem expiry_in_cycle_only_witness:
  "activeUsers (fst (sendMetrics \<lparr>source = ''dev'', url = ''collector'', apiKey = ''key''\<rparr>
       \<lparr>loadavg1 = 1, cpus = 4, totalmem = 8, freemem = 2\<rparr> 300001 300002 (Response 200 ''OK'' (BodyText []))
       (run [AuthAttempt True (Some 1) 0, AuthAttempt True (Some 2) 2, AuthAttempt True (Some 3) 1]))) =
     [(2, 2), (3, 1)] \<and>
   (2, 2) \<in> set (activeUsers (run [AuthAttempt True (Some 1) 0, AuthAttempt True (Some 2) 2,
       AuthAttempt True (Some 3) 1])) \<and>
   (300001::int) - 2 = 5 * 60 * 1000 - 1 \<and>
   (2, 2) \<in> set (activeUsers (fst (sendMetrics \<lparr>source = ''dev'', url = ''collector'', apiKey = ''key''\<rparr>
       \<lparr>loadavg1 = 1, cpus = 4, totalmem = 8, freemem = 2\<rparr> 300001 300002 (Response 200 ''OK'' (BodyText []))
       (run [AuthAttempt True (Some 1) 0, AuthAttempt True (Some 2) 2, AuthAttempt True (Some 3) 1])))) \<and>
   \<not> is_cycle (UpdateUserActivity (Some 7) 400000) \<and>
   2 \<in> fst ` set (activeUsers (step
       (run [AuthAttempt True (Some 1) 0, AuthAttempt True (Some 2) 2, AuthAttempt True (Some 3) 1])
       (UpdateUserActivity (Some 7) 400000)))"
  using expiry_in_cycle_only [of "\<lparr>source = ''dev'', url = ''collector'', apiKey = ''key''\<rparr>"
      "\<lparr>loadavg1 = 1, cpus = 4, totalmem = 8, freemem = 2\<rparr>" 300001 300002 "Response 200 ''OK'' (BodyText [])"
      "[AuthAttempt True (Some 1) 0, AuthAttempt True (Some 2) 2, AuthAttempt True (Some 3) 1]"
      2 2 "UpdateUserActivity (Some 7) 400000"
      "run [AuthAttempt True (Some 1) 0, AuthAttempt True (Some 2) 2, AuthAttempt True (Some 3) 1]"]
  by (simp add: run_def recordAuthAttempt_def updateUserActivity_def fresh_def zero_auth_def Let_def)

subsection \<open>Request counters\<close>











subsection \<open>The reset of the reporting cycle\<close>

lemma counters_sendMetrics:
  "httpRequestCounts (fst (sendMetrics cfg h now clock res s)) = zero_http \<and>
   authAttempts (fst (sendMetrics cfg h now clock res s)) = zero_auth \<and>
   pizzaMetrics (fst (sendMetrics cfg h now clock res s)) = zero_pizza"
  by (simp add: fst_sendMetrics resetPeriodMetrics_def)

lemma gauge_values_snapshot:
  "gauge_values (buildOtelMetrics clock (build_snapshot cfg h now s)) ''http_requests_total'' =
     Some [num (total_count (httpRequestCounts s))] \<and>
   gauge_values (buildOtelMetrics clock (build_snapshot cfg h now s)) ''http_requests_get'' =
     Some [num (GET (httpRequestCounts s))] \<and>
   gauge_values (buildOtelMetrics clock (build_snapshot cfg h now s)) ''http_requests_post'' =
     Some [num (POST (httpRequestCounts s))] \<and>
   gauge_values (buildOtelMetrics clock (build_snapshot cfg h now s)) ''http_requests_put'' =
     Some [num (PUT (httpRequestCounts s))] \<and>
   gauge_values (buildOtelMetrics clock (build_snapshot cfg h now s)) ''http_requests_delete'' =
     Some [num (DELETE (httpRequestCounts s))] \<and>
   gauge_values (buildOtelMetrics clock (build_snapshot cfg h now s)) ''auth_attempts_successful'' =
     Some [num (successful (authAttempts s))] \<and>
   gauge_values (buildOtelMetrics clock (build_snapshot cfg h now s)) ''auth_attempts_failed'' =
     Some [num (failed (authAttempts s))] \<and>
   gauge_values (buildOtelMetrics clock (build_snapshot cfg h now s)) ''pizzas_sold'' =
     Some [num (sold (pizzaMetrics s))] \<and>
   gauge_values (buildOtelMetrics clock (build_snapshot cfg h now s)) ''pizza_failures'' =
     Some [num (failures (pizzaMetrics s))] \<and>
   gauge_values (buildOtelMetrics clock (build_snapshot cfg h now s)) ''pizza_revenue'' =
     Some [JNum (Fin (revenue (pizzaMetrics s)))]"
  by (simp add: gauge_values_def buildOtelMetrics_def build_snapshot_def num_def Let_def)

text \<open>
  C1, as the code has it. \<open>sendMetrics\<close> resets the period counters after the delivery
  attempt whatever its outcome, a 2xx response, another response or a rejection: after
  every cycle each counter of the three groups is 0. The payload of a cycle carries the
  counters as they stood when the cycle began, so a cycle reports what was recorded
  since the cycle before it.
\<close>

theorem reset_after_every_cycle:
  "httpRequestCounts (fst (sendMetrics cfg h now clock res s)) =
     \<lparr>total_count = 0, GET = 0, POST = 0, PUT = 0, DELETE = 0, extra = Map.empty\<rparr> \<and>
   authAttempts (fst (sendMetrics cfg h now clock res s)) = \<lparr>successful = 0, failed = 0\<rparr> \<and>
   pizzaMetrics (fst (sendMetrics cfg h now clock res s)) = \<lparr>sold = 0, failures = 0, revenue = 0\<rparr> \<and>
   gauge_values (snd (sendMetrics cfg h now clock res s)) ''http_requests_total'' =
     Some [num (total_count (httpRequestCounts s))] \<and>
   gauge_values (snd (sendMetrics cfg h now clock res s)) ''http_requests_get'' =
     Some [num (GET (httpRequestCounts s))] \<and>
   gauge_values (snd (sendMetrics cfg h now clock res s)) ''http_requests_post'' =
     Some [num (POST (httpRequestCounts s))] \<and>
   gauge_values (snd (sendMetrics cfg h now clock res s)) ''http_requests_put'' =
     Some [num (PUT (httpRequestCounts s))] \<and>
   gauge_values (snd (sendMetrics cfg h now clock res s)) ''http_requests_delete'' =
     Some [num (DELETE (httpRequestCounts s))] \<and>
   gauge_values (snd (sendMetrics cfg h now clock res s)) ''auth_attempts_successful'' =
     Some [num (successful (authAttempts s))] \<and>
   gauge_values (snd (sendMetrics cfg h now clock res s)) ''auth_attempts_failed'' =
     Some [num (failed (authAttempts s))] \<and>
   gauge_values (snd (sendMetrics cfg h now clock res s)) ''pizzas_sold'' =
     Some [num (sold (pizzaMetrics s))] \<and>
   gauge_values (snd (sendMetrics cfg h now clock res s)) ''pizza_failures'' =
     Some [num (failures (pizzaMetrics s))] \<and>
   gauge_values (snd (sendMetrics cfg h now clock res s)) ''pizza_revenue'' =
     Some [JNum (Fin (revenue (pizzaMetrics s)))]"
  using counters_sendMetrics [of cfg h now clock res s]
    gauge_values_snapshot [of clock cfg h now "expire_loop (activeUsers s) (now - 300000) s"]
  by (simp add: snd_sendMetrics zero_http_def zero_auth_def zero_pizza_def)

text \<open>
  C1 as stated fails: three requests, then a cycle whose delivery is answered with 500,
  leave \<open>total\<close> at 0, and after one more request the next cycle, delivered, reports 1
  request, not 4.
\<close>

theorem reset_after_failed_delivery_counterexample:
  "total_count (httpRequestCounts (run
      [Request \<lparr>req_method = ''GET'', req_user_id = None\<rparr> 1000,
       Request \<lparr>req_method = ''GET'', req_user_id = None\<rparr> 2000,
       Request \<lparr>req_method = ''POST'', req_user_id = None\<rparr> 3000])) = 3 \<and>
   total_count (httpRequestCounts (run
      [Request \<lparr>req_method = ''GET'', req_user_id = None\<rparr> 1000,
       Request \<lparr>req_method = ''GET'', req_user_id = None\<rparr> 2000,
       Request \<lparr>req_method = ''POST'', req_user_id = None\<rparr> 3000,
       SendMetrics \<lparr>source = ''dev'', url = ''collector'', apiKey = ''key''\<rparr>
         \<lparr>loadavg1 = 1, cpus = 4, totalmem = 8, freemem = 2\<rparr> 30000 30001
         (Response 500 ''Internal Server Error'' (BodyText ''unavailable''))])) = 0 \<and>
   gauge_values (snd (sendMetrics \<lparr>source = ''dev'', url = ''collector'', apiKey = ''key''\<rparr>
         \<lparr>loadavg1 = 1, cpus = 4, totalmem = 8, freemem = 2\<rparr> 60000 60001 (Response 200 ''OK'' (BodyText []))
      (run
        [Request \<lparr>req_method = ''GET'', req_user_id = None\<rparr> 1000,
         Request \<lparr>req_method = ''GET'', req_user_id = None\<rparr> 2000,
         Request \<lparr>req_method = ''POST'', req_user_id = None\<rparr> 3000,
         SendMetrics \<lparr>source = ''dev'', url = ''collector'', apiKey = ''key''\<rparr>
           \<lparr>loadavg1 = 1, cpus = 4, totalmem = 8, freemem = 2\<rparr> 30000 30001
           (Response 500 ''Internal Server Error'' (BodyText ''unavailable'')),
         Request \<lparr>req_method = ''PUT'', req_user_id = None\<rparr> 40000])))
     ''http_requests_total'' = Some [num 1]"
  by (simp add: run_def requestTracker_def bump_def fresh_def zero_http_def Let_def
      counters_sendMetrics snd_sendMetrics gauge_values_snapshot)

subsection \<open>The encoder\<close>

lemma take_eq_iff_prefix: "(take (length sub) s = sub) = (\<exists>suf. s = sub @ suf)"
  by (metis append_eq_conv_conj append_take_drop_id)

lemma str_includes_iff: "str_includes s sub = (\<exists>pre suf. s = pre @ sub @ suf)"
proof (induction s)
  case Nil
  then show ?case by auto
next
  case (Cons c cs)
  have "(\<exists>pre suf. c # cs = pre @ sub @ suf) =
        ((\<exists>suf. c # cs = sub @ suf) \<or> (\<exists>pre suf. cs = pre @ sub @ suf))"
  proof
    assume "\<exists>pre suf. c # cs = pre @ sub @ suf"
    then obtain pre suf where e: "c # cs = pre @ sub @ suf" by blast
    show "(\<exists>suf. c # cs = sub @ suf) \<or> (\<exists>pre suf. cs = pre @ sub @ suf)"
    proof (cases pre)
      case Nil
      with e show ?thesis by auto
    next
      case (Cons p ps)
      with e have "cs = ps @ sub @ suf" by simp
      then show ?thesis by blast
    qed
  next
    assume "(\<exists>suf. c # cs = sub @ suf) \<or> (\<exists>pre suf. cs = pre @ sub @ suf)"
    then show "\<exists>pre suf. c # cs = pre @ sub @ suf"
    proof
      assume "\<exists>suf. c # cs = sub @ suf"
      then obtain suf where "c # cs = [] @ sub @ suf" by auto
      then show ?thesis by blast
    next
      assume "\<exists>pre suf. cs = pre @ sub @ suf"
      then obtain pre suf where "c # cs = (c # pre) @ sub @ suf" by auto
      then show ?thesis by blast
    qed
  qed
  with Cons show ?case
    by (simp add: take_eq_iff_prefix del: take_Suc_Cons)
qed

text \<open>
  C8, as the code has it. The metrics of the payload are, in the order of the snapshot,
  one per entry that is a number and is named neither \<open>source\<close> nor \<open>timestamp\<close>: the
  metric has the entry's name, the unit the naming convention gives that name, and one
  data point, whose value is the entry's and whose \<open>timeUnixNano\<close> is the reading the
  encoder takes of the clock, times \<open>1000000\<close>. For the snapshot of \<open>sendMetrics\<close> these
  are the fifteen gauges listed.
\<close>

theorem buildOtelMetrics_gauges:
  "map (\<lambda>m. (name m, unit m, map (\<lambda>d. (asDouble d, timeUnixNano d)) (gauge m)))
      (scope_metrics (buildOtelMetrics clock metrics)) =
   map (\<lambda>(k, v). (k, unit_by_convention k, [(v, clock * 1000000)]))
      (filter (\<lambda>(k, v). is_number v \<and> k \<noteq> ''source'' \<and> k \<noteq> ''timestamp'') metrics) \<and>
   map (\<lambda>m. (name m, unit m)) (scope_metrics (buildOtelMetrics clock (build_snapshot cfg h now s))) =
     [(''http_requests_total'', ''1''), (''http_requests_get'', ''1''),
      (''http_requests_post'', ''1''), (''http_requests_put'', ''1''),
      (''http_requests_delete'', ''1''), (''auth_attempts_successful'', ''1''),
      (''auth_attempts_failed'', ''1''), (''active_users'', ''1''),
      (''cpu_percent'', ''%''), (''memory_percent'', ''%''),
      (''pizzas_sold'', ''1''), (''pizza_failures'', ''1''), (''pizza_revenue'', ''USD''),
      (''service_latency_avg'', ''ms''), (''pizza_latency_avg'', ''ms'')]"
proof -
  have u: "getMetricUnit k = unit_by_convention k" for k
    by (simp add: getMetricUnit_def unit_by_convention_def)
  have f: "(\<lambda>(k, v). k \<noteq> ''source'' \<and> k \<noteq> ''timestamp'' \<and> is_number v) =
           (\<lambda>(k, v). is_number v \<and> k \<noteq> ''source'' \<and> k \<noteq> ''timestamp'')"
    by auto
  have "map (\<lambda>m. (name m, unit m, map (\<lambda>d. (asDouble d, timeUnixNano d)) (gauge m)))
      (scope_metrics (buildOtelMetrics clock metrics)) =
   map (\<lambda>(k, v). (k, unit_by_convention k, [(v, clock * 1000000)]))
      (filter (\<lambda>(k, v). is_number v \<and> k \<noteq> ''source'' \<and> k \<noteq> ''timestamp'') metrics)"
    by (simp add: buildOtelMetrics_def Let_def u f split_beta comp_def)
  moreover have "map (\<lambda>m. (name m, unit m)) (scope_metrics (buildOtelMetrics clock (build_snapshot cfg h now s))) =
     [(''http_requests_total'', ''1''), (''http_requests_get'', ''1''),
      (''http_requests_post'', ''1''), (''http_requests_put'', ''1''),
      (''http_requests_delete'', ''1''), (''auth_attempts_successful'', ''1''),
      (''auth_attempts_failed'', ''1''), (''active_users'', ''1''),
      (''cpu_percent'', ''%''), (''memory_percent'', ''%''),
      (''pizzas_sold'', ''1''), (''pizza_failures'', ''1''), (''pizza_revenue'', ''USD''),
      (''service_latency_avg'', ''ms''), (''pizza_latency_avg'', ''ms'')]"
    by (simp add: buildOtelMetrics_def build_snapshot_def num_def Let_def getMetricUnit_def)
  ultimately show ?thesis by simp
qed

text \<open>
  C8 as stated fails: the time stamp of the data points is not the snapshot's
  \<open>timestamp\<close> in nanoseconds when the encoder reads a later clock.
\<close>

theorem timeUnixNano_counterexample:
  "map timeUnixNano (concat (map gauge (scope_metrics
      (buildOtelMetrics 1001
        [(''source'', JStr ''dev''), (''timestamp'', JNum (Fin 1000)),
         (''cpu_percent'', JNum (Fin 25))])))) \<noteq> [1000 * 1000000]"
  by (simp add: buildOtelMetrics_def Let_def)

text \<open>
  C9. The payload is a function of the snapshot and of the clock reading the encoder
  takes, and the reading enters the time stamps only: the payload under one reading is
  the payload under any other with the time stamps replaced. Two encodings of a snapshot
  under the same reading are therefore the same payload.
\<close>

theorem buildOtelMetrics_deterministic:
  "buildOtelMetrics clock metrics = restamp (clock * 1000000) (buildOtelMetrics clock' metrics)"
  by (simp add: buildOtelMetrics_def restamp_def Let_def split_beta comp_def)

end
